theory Spec2Isabelle
  imports Complex_Main
begin

section \<open>Python strings\<close>

text \<open>
  The daemon reads its files as UTF-8 text. A \<^typ>\<open>string\<close> here is a list of code
  points below 256, which covers every token the program compares against.
  \<open>isspace\<close> is Python's \<open>str.isspace\<close> on that range and \<open>strip\<close> is
  \<open>str.strip()\<close>; \<open>lower\<close> is \<open>str.lower()\<close> on that range (ASCII and Latin-1
  capitals move 32 places up).
\<close>

definition isspace :: "char \<Rightarrow> bool" where
  "isspace c =
     (let n = (of_char c :: nat)
      in (9 \<le> n \<and> n \<le> 13) \<or> (28 \<le> n \<and> n \<le> 32) \<or> n = 133 \<or> n = 160)"

definition strip :: "string \<Rightarrow> string" where
  "strip s = rev (dropWhile isspace (rev (dropWhile isspace s)))"

definition lower_char :: "char \<Rightarrow> char" where
  "lower_char c =
     (let n = (of_char c :: nat)
      in if (65 \<le> n \<and> n \<le> 90) \<or> (192 \<le> n \<and> n \<le> 222 \<and> n \<noteq> 215)
         then char_of (n + 32) else c)"

definition lower :: "string \<Rightarrow> string" where
  "lower s = map lower_char s"

section \<open>Battery discovery and reading: \<open>battery_info\<close>\<close>

text \<open>
  Python floats are modelled as exact rationals: every finite value a file can hold is
  one, and the arithmetic of \<open>battery_info\<close> (one division, products and sums) is
  taken without rounding error. Not-a-number and the infinities are outside the model.
\<close>

datatype error = NoBatteryFound | StateWriteError

text \<open>
  What the files of one directory under \<open>/sys/class/power_supply\<close> gave:
  \<open>read_float_file\<close> and \<open>read_int_file\<close> return \<open>None\<close> on any exception, and the
  status file is \<open>None\<close> when it cannot be opened or decoded.
\<close>

record raw_device =
  energy_now_file :: "rat option"
  charge_now_file :: "rat option"
  energy_full_file :: "rat option"
  charge_full_file :: "rat option"
  capacity_file :: "int option"
  status_file :: "string option"

text \<open>One device as the loop body sees it after lines 137 to 150.\<close>

record DeviceReading =
  energyNow :: "rat option"
  energyFull :: "rat option"
  capacityPercent :: "int option"
  status :: "string option"

text \<open>
  Python's \<open>a or b\<close> on two optional floats: \<open>a\<close> when it is truthy (present and not
  \<open>0.0\<close>), else \<open>b\<close>.
\<close>

definition or_float :: "rat option \<Rightarrow> rat option \<Rightarrow> rat option" where
  "or_float a b = (case a of None \<Rightarrow> b | Some x \<Rightarrow> if x \<noteq> 0 then Some x else b)"

text \<open>
  Lines 137 to 150: the best measurement of each kind, and the stripped status text,
  kept only when it is not empty.
\<close>

definition read_device :: "raw_device \<Rightarrow> DeviceReading" where
  "read_device r =
     \<lparr> energyNow = or_float (energy_now_file r) (charge_now_file r),
       energyFull = or_float (energy_full_file r) (charge_full_file r),
       capacityPercent = capacity_file r,
       status = (case status_file r of
                   None \<Rightarrow> None
                 | Some t \<Rightarrow> if strip t \<noteq> [] then Some (strip t) else None) \<rparr>"

text \<open>The four accumulators of lines 130 to 133.\<close>

record totals =
  total_energy :: rat
  total_capacity_weight :: rat
  statuses :: "string list"
  capacities :: "int list"

definition totals0 :: totals where
  "totals0 = \<lparr> total_energy = 0, total_capacity_weight = 0, statuses = [], capacities = [] \<rparr>"

text \<open>
  Lines 151 to 169, one pass of the loop body. \<open>fallback\<close> is its \<open>elif\<close> and \<open>else\<close>
  (lines 161 to 169): the reported capacity with weight 1, or nothing with weight 1.
  The first branch is taken when \<open>energy_now\<close> is present and \<open>energy_full\<close> is truthy
  (present and not zero). The \<open>try\<close> around the division of line 156 guards nothing
  here: \<open>energy_full\<close> is not zero, and a float division raises for no other reason.
\<close>

definition fallback :: "totals \<Rightarrow> int option \<Rightarrow> totals" where
  "fallback t cap =
     (case cap of
        Some capacity \<Rightarrow>
          t\<lparr>capacities := capacities t @ [capacity],
            total_energy := total_energy t + of_int capacity,
            total_capacity_weight := total_capacity_weight t + 1\<rparr>
      | None \<Rightarrow>
          t\<lparr>total_capacity_weight := total_capacity_weight t + 1\<rparr>)"

definition accumulate :: "totals \<Rightarrow> DeviceReading \<Rightarrow> totals" where
  "accumulate t d =
     (let t1 = (case status d of
                  Some s \<Rightarrow> if s \<noteq> [] then t\<lparr>statuses := statuses t @ [s]\<rparr> else t
                | None \<Rightarrow> t)
      in case (energyNow d, energyFull d) of
           (Some energy_now, Some energy_full) \<Rightarrow>
             if energy_full \<noteq> 0 then
               (let pct = (energy_now / energy_full) * 100
                in t1\<lparr>total_energy := total_energy t1 + pct * energy_full,
                      total_capacity_weight := total_capacity_weight t1 + energy_full\<rparr>)
             else fallback t1 (capacityPercent d)
         | _ \<Rightarrow> fallback t1 (capacityPercent d))"

text \<open>
  Python 3's \<open>round\<close> of a float with one argument: the nearest integer, a tie going to
  the even neighbour.
\<close>

definition py_round :: "rat \<Rightarrow> int" where
  "py_round x =
     (let f = \<lfloor>x\<rfloor>; d = x - of_int f
      in if d < 1 / 2 then f
         else if 1 / 2 < d then f + 1
         else if even f then f else f + 1)"

text \<open>Lines 171 to 175.\<close>

definition overall_pct :: "totals \<Rightarrow> int" where
  "overall_pct t =
     (if 0 < total_capacity_weight t
      then py_round (total_energy t / total_capacity_weight t)
      else (case capacities t of [] \<Rightarrow> 0 | c # _ \<Rightarrow> c))"

text \<open>Lines 177 to 187: Charging before Discharging before Full, else the first status seen.\<close>

definition overall_status :: "string list \<Rightarrow> string" where
  "overall_status sts =
     (if list_ex (\<lambda>s. lower s = ''charging'') sts then ''Charging''
      else if list_ex (\<lambda>s. lower s = ''discharging'') sts then ''Discharging''
      else if list_ex (\<lambda>s. lower s = ''full'') sts then ''Full''
      else (case sts of [] \<Rightarrow> ''Unknown'' | s # _ \<Rightarrow> s))"

text \<open>
  The reduction of \<open>battery_info\<close> (lines 127 to 189) over the devices found; the result is
  the pair \<open>(overall_pct, overall_status)\<close> the function returns.
\<close>

type_synonym CanonicalReading = "int \<times> string"

definition aggregate :: "DeviceReading list \<Rightarrow> error + CanonicalReading" where
  "aggregate readings =
     (if readings = [] then Inl NoBatteryFound
      else (let t = foldl accumulate totals0 readings
            in Inr (overall_pct t, overall_status (statuses t))))"

definition battery_info :: "raw_device list \<Rightarrow> error + CanonicalReading" where
  "battery_info paths = aggregate (map read_device paths)"

section \<open>State handling\<close>

text \<open>
  The state file and what the file system lets the daemon do to it. \<open>content\<close> is
  \<open>None\<close> when opening or decoding the file raises (it is missing, unreadable or not
  UTF-8); \<open>can_write\<close> says whether the \<open>makedirs\<close>, \<open>open\<close>, \<open>write\<close> and \<open>replace\<close> of
  \<open>write_state\<close> all succeed; \<open>can_remove\<close> whether \<open>os.remove\<close> does.
\<close>

record state_slot =
  content :: "string option"
  can_write :: bool
  can_remove :: bool

text \<open>Lines 264 to 269: any exception reads as the token \<open>none\<close>.\<close>

definition read_state :: "state_slot \<Rightarrow> string" where
  "read_state sl = (case content sl of Some c \<Rightarrow> strip c | None \<Rightarrow> ''none'')"

text \<open>Lines 271 to 277: nothing is caught, so a failing step raises to the caller.\<close>

definition write_state :: "state_slot \<Rightarrow> string \<Rightarrow> error + state_slot" where
  "write_state sl v = (if can_write sl then Inr (sl\<lparr>content := Some v\<rparr>) else Inl StateWriteError)"

text \<open>Lines 279 to 283: a failing removal is swallowed and the file stays.\<close>

definition clear_state :: "state_slot \<Rightarrow> state_slot" where
  "clear_state sl = (if can_remove sl then sl\<lparr>content := None\<rparr> else sl)"

section \<open>One poll: \<open>one_iteration\<close>\<close>

text \<open>
  A notification carries the percentage and the threshold its message names. The three
  channels (\<open>notify_send\<close>, \<open>notify_sound\<close>, \<open>notify_telegram\<close>) catch their own
  exceptions and their results are ignored, so a notification is one event here.
\<close>

datatype action = NotifyHigh int int | NotifyLow int int

datatype slot_op = WriteState string | ClearState

text \<open>
  What one poll did: the notification sent, the calls made on the state file in order,
  the state file afterwards, and the exception that left the function, if any.
\<close>

record outcome =
  emitted :: "action option"
  ops :: "slot_op list"
  slot :: state_slot
  raised :: "error option"

definition nothing_done :: "state_slot \<Rightarrow> outcome" where
  "nothing_done sl = \<lparr> emitted = None, ops = [], slot = sl, raised = None \<rparr>"

text \<open>
  Lines 326 to 331 and 336 to 341: the message goes out on the channels first, then the
  token is written; when the write raises, the notification has been sent and the state
  file is as before.
\<close>

definition notify_and_write :: "action \<Rightarrow> string \<Rightarrow> state_slot \<Rightarrow> outcome" where
  "notify_and_write a v sl =
     (case write_state sl v of
        Inr sl' \<Rightarrow> \<lparr> emitted = Some a, ops = [WriteState v], slot = sl', raised = None \<rparr>
      | Inl e \<Rightarrow> \<lparr> emitted = Some a, ops = [WriteState v], slot = sl, raised = Some e \<rparr>)"

text \<open>
  Lines 322 to 351, the decision of \<open>one_iteration\<close> once the reading \<open>(pct, status)\<close>
  is known.
\<close>

definition decide :: "int \<Rightarrow> string \<Rightarrow> int \<Rightarrow> int \<Rightarrow> state_slot \<Rightarrow> outcome" where
  "decide pct st low high sl =
     (let current_state = read_state sl
      in if st = ''Charging'' \<and> high \<le> pct then
           (if current_state \<noteq> ''notified_high''
            then notify_and_write (NotifyHigh pct high) ''notified_high'' sl
            else nothing_done sl)
         else if st = ''Discharging'' \<and> pct \<le> low then
           (if current_state \<noteq> ''notified_low''
            then notify_and_write (NotifyLow pct low) ''notified_low'' sl
            else nothing_done sl)
         else if low < pct \<and> pct < high then
           (if current_state \<noteq> ''none''
            then \<lparr> emitted = None, ops = [ClearState], slot = clear_state sl, raised = None \<rparr>
            else nothing_done sl)
         else nothing_done sl)"

text \<open>
  The configuration values the poll uses, already parsed (lines 303 and 304), and the
  \<open>force\<close> argument.
\<close>

record config =
  LOW :: int
  HIGH :: int

datatype force = ForceHigh | ForceLow

text \<open>
  Lines 298 to 351. An exception of \<open>battery_info\<close> is logged and the function returns
  (lines 318 to 320).
\<close>

definition one_iteration ::
  "config \<Rightarrow> force option \<Rightarrow> raw_device list \<Rightarrow> state_slot \<Rightarrow> outcome" where
  "one_iteration cfg frc paths sl =
     (case (case frc of
              Some ForceHigh \<Rightarrow> Inr (HIGH cfg, ''Charging'')
            | Some ForceLow \<Rightarrow> Inr (LOW cfg, ''Discharging'')
            | None \<Rightarrow> battery_info paths) of
        Inl e \<Rightarrow> nothing_done sl
      | Inr (pct, st) \<Rightarrow> decide pct st (LOW cfg) (HIGH cfg) sl)"

section \<open>The poll loop: \<open>daemon_loop\<close>\<close>

text \<open>
  Lines 365 to 378. The list holds, for each pass made while \<open>RUNNING\<close> was true, the
  devices found on that pass; the end of the list is the signal that clears \<open>RUNNING\<close>.
  The \<open>try\<close> of the loop has a \<open>finally\<close> and no \<open>except\<close>: an exception that leaves
  \<open>one_iteration\<close> ends the loop. The sleep between two passes (lines 369 to 372)
  takes time and changes nothing else. The result lists the outcome of every pass made.
\<close>

record loop_result =
  passes :: "outcome list"
  final_slot :: state_slot
  crashed :: "error option"

fun daemon_loop :: "config \<Rightarrow> raw_device list list \<Rightarrow> state_slot \<Rightarrow> loop_result" where
  "daemon_loop cfg [] sl = \<lparr> passes = [], final_slot = sl, crashed = None \<rparr>"
| "daemon_loop cfg (paths # later) sl =
     (let r = one_iteration cfg None paths sl
      in case raised r of
           Some e \<Rightarrow> \<lparr> passes = [r], final_slot = slot r, crashed = Some e \<rparr>
         | None \<Rightarrow>
             (let rest = daemon_loop cfg later (slot r)
              in rest\<lparr>passes := r # passes rest\<rparr>))"

text \<open>
  Feeding a sequence of readings to \<open>decide\<close>, each call starting from the state file
  the one before left: per reading, the notification, the file's content afterwards and
  the exception raised.
\<close>

fun feed ::
  "int \<Rightarrow> int \<Rightarrow> state_slot \<Rightarrow> (int \<times> string) list \<Rightarrow>
     (action option \<times> string option \<times> error option) list" where
  "feed low high sl [] = []"
| "feed low high sl ((pct, st) # rs) =
     (let r = decide pct st low high sl
      in (emitted r, content (slot r), raised r) # feed low high (slot r) rs)"

section \<open>Notions the statements below use\<close>


text \<open>
  A token as the comparisons of lines 325 and 335 read it: only \<open>notified_high\<close> and
  \<open>notified_low\<close> hold a notification back; every other token, \<open>none\<close> included,
  leaves both thresholds armed.
\<close>

datatype NotificationState = Unarmed | NotifiedHigh | NotifiedLow

definition notification_state :: "string \<Rightarrow> NotificationState" where
  "notification_state tok =
     (if tok = ''notified_high'' then NotifiedHigh
      else if tok = ''notified_low'' then NotifiedLow
      else Unarmed)"

text \<open>
  Two state files that the poll cannot tell apart: the same permissions, and tokens that
  stand for the same notification state.
\<close>

definition same_armed :: "state_slot \<Rightarrow> state_slot \<Rightarrow> bool" where
  "same_armed a b =
     (can_write a = can_write b \<and> can_remove a = can_remove b \<and>
      notification_state (read_state a) = notification_state (read_state b))"

section \<open>Facts about the tokens and the accumulators\<close>

lemma strip_notified_high: "strip ''notified_high'' = ''notified_high''"
  by code_simp

lemma strip_notified_low: "strip ''notified_low'' = ''notified_low''"
  by code_simp

lemma py_round_160_3: "py_round (160 / 3) = 53"
  by code_simp



lemma decide_high:
  "st = ''Charging'' \<Longrightarrow> high \<le> pct \<Longrightarrow>
   decide pct st low high sl =
     (if read_state sl \<noteq> ''notified_high''
      then notify_and_write (NotifyHigh pct high) ''notified_high'' sl
      else nothing_done sl)"
  by (simp add: decide_def)

lemma decide_low:
  "st = ''Discharging'' \<Longrightarrow> pct \<le> low \<Longrightarrow>
   decide pct st low high sl =
     (if read_state sl \<noteq> ''notified_low''
      then notify_and_write (NotifyLow pct low) ''notified_low'' sl
      else nothing_done sl)"
  by (simp add: decide_def)

lemma decide_quiet:
  "\<not> (st = ''Charging'' \<and> high \<le> pct) \<Longrightarrow> \<not> (st = ''Discharging'' \<and> pct \<le> low) \<Longrightarrow>
   emitted (decide pct st low high sl) = None \<and> raised (decide pct st low high sl) = None"
  by (auto simp add: decide_def nothing_done_def Let_def)

lemma notify_and_write_returned:
  "raised (notify_and_write a v sl) = None \<Longrightarrow>
   read_state (slot (notify_and_write a v sl)) = strip v"
  by (auto simp add: notify_and_write_def write_state_def read_state_def split: if_splits)

text \<open>
  State files that stand for the same notification state give the same notifications and
  exceptions on every sequence of readings; a file with an unrecognised token and no file
  are such a pair.
\<close>

lemma same_armed_tokens:
  assumes "same_armed a b"
  shows "(read_state a = ''notified_high'') = (read_state b = ''notified_high'')"
    and "(read_state a = ''notified_low'') = (read_state b = ''notified_low'')"
  using assms by (auto simp add: same_armed_def notification_state_def split: if_splits)

lemma same_armed_written:
  assumes "same_armed a b"
  shows "emitted (notify_and_write n v a) = emitted (notify_and_write n v b)"
    and "raised (notify_and_write n v a) = raised (notify_and_write n v b)"
    and "same_armed (slot (notify_and_write n v a)) (slot (notify_and_write n v b))"
  using assms
  by (simp_all add: same_armed_def notify_and_write_def write_state_def read_state_def)

lemma read_state_cleared:
  "read_state (clear_state a) = (if can_remove a then ''none'' else read_state a)"
  by (simp add: clear_state_def read_state_def)

lemma flags_cleared:
  "can_write (clear_state a) = can_write a" "can_remove (clear_state a) = can_remove a"
  by (simp_all add: clear_state_def)

lemma same_armed_cleared:
  assumes "same_armed a b"
  shows "same_armed (clear_state a) (clear_state b)"
    and "read_state b = ''none'' \<Longrightarrow> same_armed (clear_state a) b"
    and "read_state a = ''none'' \<Longrightarrow> same_armed a (clear_state b)"
  using assms
  by (simp_all add: same_armed_def read_state_cleared flags_cleared)

lemma decide_same_armed:
  assumes "same_armed a b"
  shows "emitted (decide pct st low high a) = emitted (decide pct st low high b)
       \<and> raised (decide pct st low high a) = raised (decide pct st low high b)
       \<and> same_armed (slot (decide pct st low high a)) (slot (decide pct st low high b))"
proof -
  consider (hi) "st = ''Charging'' \<and> high \<le> pct"
    | (lo) "st = ''Discharging'' \<and> pct \<le> low"
    | (band) "\<not> (st = ''Charging'' \<and> high \<le> pct)" "\<not> (st = ''Discharging'' \<and> pct \<le> low)"
        "low < pct \<and> pct < high"
    | (other) "\<not> (st = ''Charging'' \<and> high \<le> pct)" "\<not> (st = ''Discharging'' \<and> pct \<le> low)"
        "\<not> (low < pct \<and> pct < high)"
    by blast
  then show ?thesis
  proof cases
    case hi
    then show ?thesis
      using assms same_armed_tokens(1) [OF assms] same_armed_written [OF assms]
      by (simp add: decide_high nothing_done_def)
  next
    case lo
    then show ?thesis
      using assms same_armed_tokens(2) [OF assms] same_armed_written [OF assms]
      by (simp add: decide_low nothing_done_def)
  next
    case band
    then have d: "\<And>s. decide pct st low high s =
        (if read_state s \<noteq> ''none''
         then \<lparr> emitted = None, ops = [ClearState], slot = clear_state s, raised = None \<rparr>
         else nothing_done s)"
      by (auto simp add: decide_def Let_def)
    show ?thesis
      using assms same_armed_cleared [OF assms]
      by (simp add: d nothing_done_def)
  next
    case other
    then have d: "\<And>s. decide pct st low high s = nothing_done s"
      by (auto simp add: decide_def Let_def)
    show ?thesis
      using assms by (simp add: d nothing_done_def)
  qed
qed

lemma feed_same_armed:
  "same_armed a b \<Longrightarrow>
   map (\<lambda>(n, c, e). (n, e)) (feed low high a rs) = map (\<lambda>(n, c, e). (n, e)) (feed low high b rs)"
proof (induction rs arbitrary: a b)
  case Nil
  then show ?case by simp
next
  case (Cons r rs)
  obtain pct st where r: "r = (pct, st)" by (cases r)
  from decide_same_armed [OF Cons.prems, of pct st low high]
  have s: "same_armed (slot (decide pct st low high a)) (slot (decide pct st low high b))"
    and e: "emitted (decide pct st low high a) = emitted (decide pct st low high b)"
    and x: "raised (decide pct st low high a) = raised (decide pct st low high b)"
    by simp_all
  from Cons.IH [OF s] e x show ?case by (simp add: r Let_def)
qed

lemma unrecognised_token_same_armed:
  "content sl = Some c \<Longrightarrow> strip c \<noteq> ''notified_high'' \<Longrightarrow> strip c \<noteq> ''notified_low'' \<Longrightarrow>
   same_armed sl (sl\<lparr>content := None\<rparr>)"
  by (simp add: same_armed_def read_state_def notification_state_def)

lemma unrecognised_token_same_notifications:
  assumes "content sl = Some c"
    and "strip c \<noteq> ''notified_high''" and "strip c \<noteq> ''notified_low''"
  shows "map (\<lambda>(n, c, e). (n, e)) (feed low high sl rs)
       = map (\<lambda>(n, c, e). (n, e)) (feed low high (sl\<lparr>content := None\<rparr>) rs)"
  using assms by (intro feed_same_armed unrecognised_token_same_armed)

text \<open>
  A missing or unreadable state file reads as \<open>none\<close>, and a pass on which no battery is
  found does nothing and raises nothing, so the loop goes on after it.
\<close>

lemma read_failure_is_none: "content sl = None \<Longrightarrow> read_state sl = ''none''"
  by (simp add: read_state_def)

lemma no_battery_pass_is_skipped:
  "daemon_loop cfg ([] # later) sl =
     (daemon_loop cfg later sl)\<lparr>passes := nothing_done sl # passes (daemon_loop cfg later sl)\<rparr>"
  by (simp add: one_iteration_def battery_info_def aggregate_def nothing_done_def Let_def)

section \<open>The aggregation\<close>

text \<open>
  C1: for every sequence of readings with an entry whose \<open>energyFull\<close> is present and
  positive, the percentage returned lies between 0 and 100. The docstring of
  \<open>battery_info\<close> promises that range, but no line clamps the rounded average: a device
  whose \<open>energy_now\<close> is above its \<open>energy_full\<close> (101000 against 100000) gives 101.
\<close>

theorem percent_above_100:
  "aggregate [\<lparr>energyNow = Some 101000, energyFull = Some 100000,
               capacityPercent = Some 100, status = Some ''Full''\<rparr>] = Inr (101, ''Full'')"
  by code_simp






text \<open>
  C8, as stated: two devices, one with \<open>energyNow = 50\<close> and \<open>energyFull = 100\<close>, the other
  with \<open>energyNow = 30\<close> and \<open>energyFull = 50\<close>, aggregate to 73. They do not.
\<close>

theorem two_devices_not_73:
  "\<not> (\<exists>st. aggregate
     [\<lparr>energyNow = Some 50, energyFull = Some 100, capacityPercent = None, status = None\<rparr>,
      \<lparr>energyNow = Some 30, energyFull = Some 50, capacityPercent = None, status = None\<rparr>]
     = Inr (73, st))"
proof -
  have "aggregate
     [\<lparr>energyNow = Some 50, energyFull = Some 100, capacityPercent = None, status = None\<rparr>,
      \<lparr>energyNow = Some 30, energyFull = Some 50, capacityPercent = None, status = None\<rparr>]
     = Inr (53, ''Unknown'')"
    by code_simp
  then show ?thesis by simp
qed

text \<open>
  C8, as amended: the two devices aggregate to 53, the rounded capacity-weighted mean
  \<open>(50 * 100 + 60 * 50) / 150\<close>, which is \<open>(50 + 30) / 150 * 100\<close>; whatever their
  capacity and status files hold.
\<close>

theorem two_devices_weighted_percent:
  "\<exists>st. aggregate
     [\<lparr>energyNow = Some 50, energyFull = Some 100, capacityPercent = c1, status = s1\<rparr>,
      \<lparr>energyNow = Some 30, energyFull = Some 50, capacityPercent = c2, status = s2\<rparr>]
     = Inr (53, st)"
proof -
  let ?ds = "[\<lparr>energyNow = Some 50, energyFull = Some 100, capacityPercent = c1, status = s1\<rparr>,
      \<lparr>energyNow = Some 30, energyFull = Some 50, capacityPercent = c2, status = s2\<rparr>]"
  have e: "total_energy (foldl accumulate totals0 ?ds) = 8000"
    by (simp add: accumulate_def totals0_def Let_def split: option.splits)
  have w: "total_capacity_weight (foldl accumulate totals0 ?ds) = 150"
    by (simp add: accumulate_def totals0_def Let_def split: option.splits)
  have "overall_pct (foldl accumulate totals0 ?ds) = 53"
    unfolding overall_pct_def e w using py_round_160_3 by simp
  then show ?thesis
    by (simp add: aggregate_def Let_def)
qed

section \<open>The notification state machine\<close>

text \<open>
  C2: with \<open>low = 20\<close> and \<open>high = 80\<close>, starting with no state file, the readings
  (85, Charging), (85, Charging), (50, Discharging), (15, Discharging), (15, Discharging),
  (50, Unknown), each fed to \<open>decide\<close> on the state the call before left, give in order:
  a high notification, nothing, nothing with the state cleared, a low notification,
  nothing, nothing with the state cleared.
\<close>

theorem hysteresis_sequence:
  "feed 20 80 \<lparr>content = None, can_write = True, can_remove = True\<rparr>
     [(85, ''Charging''), (85, ''Charging''), (50, ''Discharging''),
      (15, ''Discharging''), (15, ''Discharging''), (50, ''Unknown'')]
   = [(Some (NotifyHigh 85 80), Some ''notified_high'', None),
      (None, Some ''notified_high'', None),
      (None, None, None),
      (Some (NotifyLow 15 20), Some ''notified_low'', None),
      (None, Some ''notified_low'', None),
      (None, None, None)]"
  by code_simp

text \<open>
  C3: for every reading, all thresholds and every prior state, when \<open>decide\<close> has returned
  and is called again with the same reading on the state it left, the second call sends
  no notification.
\<close>

theorem decide_repeated_is_silent:
  assumes "raised (decide pct st low high sl) = None"
  shows "emitted (decide pct st low high (slot (decide pct st low high sl))) = None"
proof -
  consider (hi) "st = ''Charging'' \<and> high \<le> pct"
    | (lo) "st = ''Discharging'' \<and> pct \<le> low"
    | (other) "\<not> (st = ''Charging'' \<and> high \<le> pct)" "\<not> (st = ''Discharging'' \<and> pct \<le> low)"
    by blast
  then show ?thesis
  proof cases
    case hi
    then have d: "\<And>s. decide pct st low high s =
        (if read_state s \<noteq> ''notified_high''
         then notify_and_write (NotifyHigh pct high) ''notified_high'' s
         else nothing_done s)"
      by (simp add: decide_high)
    have "read_state (slot (decide pct st low high sl)) = ''notified_high''"
    proof (cases "read_state sl = ''notified_high''")
      case True
      then show ?thesis by (simp add: d nothing_done_def)
    next
      case False
      with assms have "raised (notify_and_write (NotifyHigh pct high) ''notified_high'' sl) = None"
        by (simp add: d)
      from notify_and_write_returned [OF this] False show ?thesis
        by (simp add: d strip_notified_high)
    qed
    then show ?thesis
      by (simp add: d [of "slot (decide pct st low high sl)"] nothing_done_def)
  next
    case lo
    then have d: "\<And>s. decide pct st low high s =
        (if read_state s \<noteq> ''notified_low''
         then notify_and_write (NotifyLow pct low) ''notified_low'' s
         else nothing_done s)"
      by (simp add: decide_low)
    have "read_state (slot (decide pct st low high sl)) = ''notified_low''"
    proof (cases "read_state sl = ''notified_low''")
      case True
      then show ?thesis by (simp add: d nothing_done_def)
    next
      case False
      with assms have "raised (notify_and_write (NotifyLow pct low) ''notified_low'' sl) = None"
        by (simp add: d)
      from notify_and_write_returned [OF this] False show ?thesis
        by (simp add: d strip_notified_low)
    qed
    then show ?thesis
      by (simp add: d [of "slot (decide pct st low high sl)"] nothing_done_def)
  next
    case other
    then show ?thesis by (simp add: decide_quiet)
  qed
qed

theorem decide_repeated_is_silent_witness:
  "raised (decide 85 ''Charging'' 20 80
      \<lparr>content = None, can_write = True, can_remove = True\<rparr>) = None \<and>
   emitted (decide 85 ''Charging'' 20 80
      \<lparr>content = None, can_write = True, can_remove = True\<rparr>) = Some (NotifyHigh 85 80) \<and>
   emitted (decide 85 ''Charging'' 20 80
     (slot (decide 85 ''Charging'' 20 80
        \<lparr>content = None, can_write = True, can_remove = True\<rparr>))) = None"
proof -
  have r: "raised (decide 85 ''Charging'' 20 80
      \<lparr>content = None, can_write = True, can_remove = True\<rparr>) = None"
    by code_simp
  have e: "emitted (decide 85 ''Charging'' 20 80
      \<lparr>content = None, can_write = True, can_remove = True\<rparr>) = Some (NotifyHigh 85 80)"
    by code_simp
  from decide_repeated_is_silent [OF r] r e show ?thesis by simp
qed

text \<open>
  C4: \<open>decide\<close> never fails: a failing read of the state file counts as \<open>none\<close> and a
  failing write is logged and ignored. The read is so (\<open>read_failure_is_none\<close>), and
  \<open>clear_state\<close> swallows a failing removal, but \<open>write_state\<close> catches nothing and
  \<open>one_iteration\<close> calls it outside any \<open>try\<close>: at 85 percent, charging, with no state
  file and a write that fails, the notification is sent and the exception leaves
  \<open>decide\<close>.
\<close>

theorem write_failure_leaves_decide:
  "decide 85 ''Charging'' 20 80 \<lparr>content = None, can_write = False, can_remove = True\<rparr>
     = \<lparr> emitted = Some (NotifyHigh 85 80), ops = [WriteState ''notified_high''],
         slot = \<lparr>content = None, can_write = False, can_remove = True\<rparr>,
         raised = Some StateWriteError \<rparr>"
  by code_simp

text \<open>
  C6: no error raised inside one cycle ends the poll loop. A pass with no battery is
  skipped (\<open>no_battery_pass_is_skipped\<close>), but the loop has no \<open>except\<close>: when the write
  of the state file fails on the first of two passes, the loop ends there and the second
  pass is never made.
\<close>

theorem write_failure_ends_loop:
  "daemon_loop \<lparr>LOW = 20, HIGH = 80\<rparr>
     [[\<lparr>energy_now_file = None, charge_now_file = None, energy_full_file = None,
         charge_full_file = None, capacity_file = Some 85, status_file = Some ''Charging''\<rparr>],
      [\<lparr>energy_now_file = None, charge_now_file = None, energy_full_file = None,
         charge_full_file = None, capacity_file = Some 50, status_file = Some ''Discharging''\<rparr>]]
     \<lparr>content = None, can_write = False, can_remove = True\<rparr>
   = \<lparr> passes = [\<lparr> emitted = Some (NotifyHigh 85 80), ops = [WriteState ''notified_high''],
                    slot = \<lparr>content = None, can_write = False, can_remove = True\<rparr>,
                    raised = Some StateWriteError \<rparr>],
       final_slot = \<lparr>content = None, can_write = False, can_remove = True\<rparr>,
       crashed = Some StateWriteError \<rparr>"
  by code_simp

text \<open>
  C9: in a suppressed case (a high crossing with the token \<open>notified_high\<close>, a low
  crossing with the token \<open>notified_low\<close>) and in every other combination outside the
  neutral band, \<open>decide\<close> sends nothing, raises nothing, makes no call that writes or
  removes the state file, and leaves the state file as it was.
\<close>

theorem decide_leaves_state_untouched:
  assumes "(st = ''Charging'' \<and> high \<le> pct \<and> read_state sl = ''notified_high'')
         \<or> (st = ''Discharging'' \<and> pct \<le> low \<and> read_state sl = ''notified_low'')
         \<or> (\<not> (st = ''Charging'' \<and> high \<le> pct) \<and> \<not> (st = ''Discharging'' \<and> pct \<le> low)
              \<and> \<not> (low < pct \<and> pct < high))"
  shows "decide pct st low high sl = \<lparr> emitted = None, ops = [], slot = sl, raised = None \<rparr>"
  using assms by (auto simp add: decide_def nothing_done_def Let_def)

theorem decide_leaves_state_untouched_witness:
  "decide 85 ''Charging'' 20 80
      \<lparr>content = Some ''notified_high'', can_write = True, can_remove = True\<rparr>
     = \<lparr> emitted = None, ops = [],
         slot = \<lparr>content = Some ''notified_high'', can_write = True, can_remove = True\<rparr>,
         raised = None \<rparr> \<and>
   decide 15 ''Discharging'' 20 80
      \<lparr>content = Some ''notified_low'', can_write = True, can_remove = True\<rparr>
     = \<lparr> emitted = None, ops = [],
         slot = \<lparr>content = Some ''notified_low'', can_write = True, can_remove = True\<rparr>,
         raised = None \<rparr> \<and>
   decide 85 ''Discharging'' 20 80
      \<lparr>content = Some ''notified_low'', can_write = True, can_remove = True\<rparr>
     = \<lparr> emitted = None, ops = [],
         slot = \<lparr>content = Some ''notified_low'', can_write = True, can_remove = True\<rparr>,
         raised = None \<rparr>"
proof -
  have h: "read_state \<lparr>content = Some ''notified_high'', can_write = True, can_remove = True\<rparr>
      = ''notified_high''"
    by code_simp
  have l: "read_state \<lparr>content = Some ''notified_low'', can_write = True, can_remove = True\<rparr>
      = ''notified_low''"
    by code_simp
  show ?thesis
    using decide_leaves_state_untouched [of "''Charging''" 80 85
        "\<lparr>content = Some ''notified_high'', can_write = True, can_remove = True\<rparr>" 20]
      decide_leaves_state_untouched [of "''Discharging''" 80 15
        "\<lparr>content = Some ''notified_low'', can_write = True, can_remove = True\<rparr>" 20]
      decide_leaves_state_untouched [of "''Discharging''" 80 85
        "\<lparr>content = Some ''notified_low'', can_write = True, can_remove = True\<rparr>" 20]
      h l
    by simp
qed



end
